theory Spec2Isabelle
  imports Complex_Main "HOL-Library.Word" "HOL-Library.Char_ord" "HOL-Library.List_Lexorder"
    "HOL-Library.Product_Lexorder"
begin

section \<open>Python values and the operations the parsers apply to them\<close>

text \<open>
  The API response is whatever \<^verbatim>\<open>response.json()\<close> returns: a Python value built from
  \<^verbatim>\<open>None\<close>, \<^verbatim>\<open>bool\<close>, \<^verbatim>\<open>int\<close>, \<^verbatim>\<open>float\<close>, \<^verbatim>\<open>str\<close>, \<^verbatim>\<open>list\<close> and \<^verbatim>\<open>dict\<close>.
  A dict is an association list in insertion order (a Python dict never holds a key
  twice; lookup takes the first binding). Strings are byte sequences (UTF-8). The
  parsers never compute with a number, they only test and copy it, so a float is
  represented by the rational it denotes.
\<close>

datatype json =
    JNull
  | JBool bool
  | JInt int
  | JFloat rat
  | JString string
  | JList "json list"
  | JObject "(string \<times> json) list"

text \<open>The exceptions the modelled code can raise.\<close>

datatype error = KeyError string | TypeError | ValueError | ZeroDivisionError

text \<open>\<^verbatim>\<open>not data\<close>: Python truthiness.\<close>

fun truthy :: "json \<Rightarrow> bool" where
  "truthy JNull = False"
| "truthy (JBool b) = b"
| "truthy (JInt i) = (i \<noteq> 0)"
| "truthy (JFloat x) = (x \<noteq> 0)"
| "truthy (JString s) = (s \<noteq> [])"
| "truthy (JList xs) = (xs \<noteq> [])"
| "truthy (JObject kvs) = (kvs \<noteq> [])"

text \<open>Substring test, for \<^verbatim>\<open>k in s\<close> on a string \<open>s\<close>.\<close>

fun starts_with :: "string \<Rightarrow> string \<Rightarrow> bool" where
  "starts_with [] s = True"
| "starts_with (c # cs) [] = False"
| "starts_with (c # cs) (d # ds) = (c = d \<and> starts_with cs ds)"

fun str_contains :: "string \<Rightarrow> string \<Rightarrow> bool" where
  "str_contains k [] = (k = [])"
| "str_contains k (c # cs) = (starts_with k (c # cs) \<or> str_contains k cs)"

text \<open>
  \<^verbatim>\<open>k in data\<close> for a string \<open>k\<close>: key membership on a dict, element membership on a
  list, substring on a string, \<^verbatim>\<open>TypeError\<close> on a value that is not iterable.
\<close>

fun py_in :: "string \<Rightarrow> json \<Rightarrow> error + bool" where
  "py_in k (JObject kvs) = Inr (map_of kvs k \<noteq> None)"
| "py_in k (JList xs) = Inr (JString k \<in> set xs)"
| "py_in k (JString s) = Inr (str_contains k s)"
| "py_in k JNull = Inl TypeError"
| "py_in k (JBool b) = Inl TypeError"
| "py_in k (JInt i) = Inl TypeError"
| "py_in k (JFloat x) = Inl TypeError"

text \<open>
  \<^verbatim>\<open>data[k]\<close> for a string \<open>k\<close>: the value or \<^verbatim>\<open>KeyError\<close> on a dict, \<^verbatim>\<open>TypeError\<close> on
  everything else (a list or a string wants an integer index, the rest is not
  subscriptable).
\<close>

fun getitem :: "json \<Rightarrow> string \<Rightarrow> error + json" where
  "getitem (JObject kvs) k = (case map_of kvs k of None \<Rightarrow> Inl (KeyError k) | Some v \<Rightarrow> Inr v)"
| "getitem JNull k = Inl TypeError"
| "getitem (JBool b) k = Inl TypeError"
| "getitem (JInt i) k = Inl TypeError"
| "getitem (JFloat x) k = Inl TypeError"
| "getitem (JString s) k = Inl TypeError"
| "getitem (JList xs) k = Inl TypeError"

text \<open>
  \<^verbatim>\<open>for x in data\<close>: the elements of a list, the keys of a dict, the characters of a
  string, \<^verbatim>\<open>TypeError\<close> otherwise.
\<close>

fun py_iter :: "json \<Rightarrow> error + json list" where
  "py_iter (JList xs) = Inr xs"
| "py_iter (JObject kvs) = Inr (map (\<lambda>kv. JString (fst kv)) kvs)"
| "py_iter (JString s) = Inr (map (\<lambda>c. JString [c]) s)"
| "py_iter JNull = Inl TypeError"
| "py_iter (JBool b) = Inl TypeError"
| "py_iter (JInt i) = Inl TypeError"
| "py_iter (JFloat x) = Inl TypeError"

text \<open>
  \<^verbatim>\<open>isinstance(v, (int, float))\<close>. In Python \<^verbatim>\<open>bool\<close> is a subclass of \<^verbatim>\<open>int\<close>, so the
  test accepts \<^verbatim>\<open>True\<close> and \<^verbatim>\<open>False\<close> too.
\<close>

fun is_number :: "json \<Rightarrow> bool" where
  "is_number (JInt i) = True"
| "is_number (JFloat x) = True"
| "is_number (JBool b) = True"
| "is_number JNull = False"
| "is_number (JString s) = False"
| "is_number (JList xs) = False"
| "is_number (JObject kvs) = False"

section \<open>The response normalizer: \<^verbatim>\<open>parse_generation_data\<close>\<close>

text \<open>
  One element of the list \<^verbatim>\<open>records\<close>: the dict with the keys \<^verbatim>\<open>'datetime'\<close>,
  \<^verbatim>\<open>'type'\<close> and \<^verbatim>\<open>'value'\<close> that the loop appends. The fields hold whatever Python
  value the response supplied. \<open>parse_generation_data\<close> below is the list \<^verbatim>\<open>records\<close>
  that the function hands to \<^verbatim>\<open>pd.DataFrame\<close>, one row of the frame per element, and
  the empty list where it returns \<^verbatim>\<open>pd.DataFrame()\<close>; what pandas stores in a column
  of the frame is \<open>frame_column\<close>, further down.
\<close>

record row =
  row_datetime :: json
  row_type :: json
  row_value :: json

text \<open>
  The inner loop \<^verbatim>\<open>for gen_type in value_data\<close> of the list branch; \<open>records\<close> is
  the list being appended to. The dict literal evaluates \<^verbatim>\<open>gen_type['type']\<close> before
  \<^verbatim>\<open>gen_type['value']\<close>.
\<close>

fun gen_type_loop :: "json \<Rightarrow> json list \<Rightarrow> row list \<Rightarrow> error + row list" where
  "gen_type_loop datetime_str [] records = Inr records"
| "gen_type_loop datetime_str (gen_type # rest) records =
     (case getitem gen_type ''type'' of
        Inl e \<Rightarrow> Inl e
      | Inr t \<Rightarrow>
          (case getitem gen_type ''value'' of
             Inl e \<Rightarrow> Inl e
           | Inr v \<Rightarrow>
               gen_type_loop datetime_str rest
                 (records @ [\<lparr>row_datetime = datetime_str, row_type = t, row_value = v\<rparr>])))"

text \<open>The inner loop \<^verbatim>\<open>for type_name, type_value in value_data.items()\<close> of the dict branch.\<close>

fun items_loop :: "json \<Rightarrow> (string \<times> json) list \<Rightarrow> row list \<Rightarrow> row list" where
  "items_loop datetime_str [] records = records"
| "items_loop datetime_str ((type_name, type_value) # rest) records =
     items_loop datetime_str rest
       (records @ [\<lparr>row_datetime = datetime_str, row_type = JString type_name,
                    row_value = type_value\<rparr>])"

text \<open>
  The \<^verbatim>\<open>if\<close>/\<^verbatim>\<open>elif\<close> chain on \<^verbatim>\<open>value_data\<close>: list, then number, then dict; any other
  value falls through all three tests and appends nothing.
\<close>

fun dispatch :: "json \<Rightarrow> json \<Rightarrow> row list \<Rightarrow> error + row list" where
  "dispatch datetime_str (JList gs) records = gen_type_loop datetime_str gs records"
| "dispatch datetime_str (JObject kvs) records = Inr (items_loop datetime_str kvs records)"
| "dispatch datetime_str value_data records =
     (if is_number value_data
      then Inr (records @ [\<lparr>row_datetime = datetime_str, row_type = JString ''total'',
                            row_value = value_data\<rparr>])
      else Inr records)"

text \<open>The body of \<^verbatim>\<open>for value in values\<close>.\<close>

definition entry_step :: "json \<Rightarrow> row list \<Rightarrow> error + row list" where
  "entry_step value records =
     (case getitem value ''datetime'' of
        Inl e \<Rightarrow> Inl e
      | Inr datetime_str \<Rightarrow>
          (case getitem value ''value'' of
             Inl e \<Rightarrow> Inl e
           | Inr value_data \<Rightarrow> dispatch datetime_str value_data records))"

fun values_loop :: "json list \<Rightarrow> row list \<Rightarrow> error + row list" where
  "values_loop [] records = Inr records"
| "values_loop (value # rest) records =
     (case entry_step value records of
        Inl e \<Rightarrow> Inl e
      | Inr records' \<Rightarrow> values_loop rest records')"

definition parse_generation_data :: "json \<Rightarrow> error + row list" where
  "parse_generation_data data =
     (if \<not> truthy data then Inr []
      else
        (case py_in ''indicator'' data of
           Inl e \<Rightarrow> Inl e
         | Inr present \<Rightarrow>
             (if \<not> present then Inr []
              else
                (case getitem data ''indicator'' of
                   Inl e \<Rightarrow> Inl e
                 | Inr indicator \<Rightarrow>
                     (case getitem indicator ''values'' of
                        Inl e \<Rightarrow> Inl e
                      | Inr values \<Rightarrow>
                          (case py_iter values of
                             Inl e \<Rightarrow> Inl e
                           | Inr entries \<Rightarrow> values_loop entries []))))))"


section \<open>What pandas stores: float64 values and the columns of a frame\<close>

text \<open>
  A finite float64 is represented by the rational it denotes (\<open>-0.0\<close> and \<open>0.0\<close> both by
  \<open>0\<close>). \<open>binary64\<close> rounds a rational to the nearest float64, ties to even: 53
  significant bits, the spacing of the subnormals below \<^verbatim>\<open>2**-1022\<close>. It is the rounding of
  every IEEE 754 operation and of the conversion of an integer to a float. Overflow is
  not represented: every number rounded here is below \<^verbatim>\<open>2**1024\<close> in size.
\<close>

function bit_length :: "int \<Rightarrow> int" where
  "bit_length k = (if k \<le> 0 then 0 else 1 + bit_length (k div 2))"
  by pat_completeness auto
termination
  by (relation "measure nat") auto

text \<open>The exponent \<open>e\<close> of a non-zero \<open>x\<close>: the integer with \<^verbatim>\<open>2**e <= |x| < 2**(e+1)\<close>.\<close>

definition exponent :: "rat \<Rightarrow> int" where
  "exponent x =
     (if 1 \<le> \<bar>x\<bar> then bit_length \<lfloor>\<bar>x\<bar>\<rfloor> - 1
      else - bit_length (\<lceil>1 / \<bar>x\<bar>\<rceil> - 1))"

definition round_half_even :: "rat \<Rightarrow> int" where
  "round_half_even x =
     (let f = \<lfloor>x\<rfloor>; d = x - of_int f
      in if d < 1 / 2 then f
         else if 1 / 2 < d then f + 1
         else if even f then f else f + 1)"

definition scale2 :: "rat \<Rightarrow> int \<Rightarrow> rat" where
  "scale2 x k = (if 0 \<le> k then x * 2 ^ nat k else x / 2 ^ nat (- k))"

definition binary64 :: "rat \<Rightarrow> rat" where
  "binary64 x =
     (if x = 0 then 0
      else let k = 52 - max (exponent x) (- 1022)
           in scale2 (of_int (round_half_even (scale2 x k))) (- k))"

text \<open>A cell of a float64 column: a finite number or \<^verbatim>\<open>NaN\<close>, pandas' missing value.\<close>

datatype f64 = Finite rat | NaN

text \<open>
  A column of \<^verbatim>\<open>pd.DataFrame(records)\<close>. pandas collects the values of one key into an
  object array and infers a dtype from them: \<^verbatim>\<open>int64\<close> when all are integers;
  \<^verbatim>\<open>float64\<close> when all are integers, floats or \<^verbatim>\<open>None\<close>, with at least one number and
  at least one float or \<^verbatim>\<open>None\<close> (an integer becomes the nearest float, \<^verbatim>\<open>None\<close>
  becomes \<^verbatim>\<open>NaN\<close>); \<^verbatim>\<open>bool\<close> when all are booleans; and otherwise \<^verbatim>\<open>object\<close>, which
  keeps the Python values as they are (a string, a list or a dict anywhere, a boolean
  beside anything else, or nothing but \<^verbatim>\<open>None\<close>). A column with an integer outside the
  int64 range is not modelled.
\<close>

datatype column =
    Int64Column "64 word list"
  | Float64Column "f64 list"
  | BoolColumn "bool list"
  | ObjectColumn "json list"
  | UnmodelledColumn

fun beyond_int64 :: "json \<Rightarrow> bool" where
  "beyond_int64 (JInt i) = (i < - (2 ^ 63) \<or> 2 ^ 63 \<le> i)"
| "beyond_int64 v = False"

fun forces_object :: "json \<Rightarrow> bool" where
  "forces_object (JString s) = True"
| "forces_object (JList xs) = True"
| "forces_object (JObject kvs) = True"
| "forces_object v = False"

fun is_bool :: "json \<Rightarrow> bool" where
  "is_bool (JBool b) = True"
| "is_bool v = False"

fun is_int :: "json \<Rightarrow> bool" where
  "is_int (JInt i) = True"
| "is_int v = False"

fun is_int_or_float :: "json \<Rightarrow> bool" where
  "is_int_or_float (JInt i) = True"
| "is_int_or_float (JFloat x) = True"
| "is_int_or_float v = False"

fun bool_cell :: "json \<Rightarrow> bool" where
  "bool_cell (JBool b) = b"
| "bool_cell v = False"

fun int64_cell :: "json \<Rightarrow> 64 word" where
  "int64_cell (JInt i) = word_of_int i"
| "int64_cell v = 0"

fun float64_cell :: "json \<Rightarrow> f64" where
  "float64_cell (JInt i) = Finite (binary64 (of_int i))"
| "float64_cell (JFloat x) = Finite x"
| "float64_cell v = NaN"

definition frame_column :: "json list \<Rightarrow> column" where
  "frame_column vs =
     (if list_ex beyond_int64 vs then UnmodelledColumn
      else if list_ex forces_object vs then ObjectColumn vs
      else if list_ex is_bool vs then
        (if list_all is_bool vs then BoolColumn (map bool_cell vs) else ObjectColumn vs)
      else if \<not> list_ex is_int_or_float vs then ObjectColumn vs
      else if list_all is_int vs then Int64Column (map int64_cell vs)
      else Float64Column (map float64_cell vs))"

section \<open>The scalar-series variant: \<^verbatim>\<open>parse_indicator_data\<close>\<close>

text \<open>An element of its list \<^verbatim>\<open>records\<close> has the keys \<^verbatim>\<open>'datetime'\<close> and \<^verbatim>\<open>'value'\<close> only.\<close>

record irow =
  irow_datetime :: json
  irow_value :: json

fun indicator_loop :: "json list \<Rightarrow> irow list \<Rightarrow> error + irow list" where
  "indicator_loop [] records = Inr records"
| "indicator_loop (value # rest) records =
     (case getitem value ''datetime'' of
        Inl e \<Rightarrow> Inl e
      | Inr d \<Rightarrow>
          (case getitem value ''value'' of
             Inl e \<Rightarrow> Inl e
           | Inr v \<Rightarrow>
               indicator_loop rest (records @ [\<lparr>irow_datetime = d, irow_value = v\<rparr>])))"

text \<open>
  The frame \<^verbatim>\<open>pd.DataFrame(records)\<close> of this parser: its two columns, each with one
  cell per record. \<^verbatim>\<open>pd.DataFrame()\<close> has no rows and is the frame of the empty list.
\<close>

record indicator_frame =
  datetime_column :: column
  value_column :: column

definition DataFrame :: "irow list \<Rightarrow> indicator_frame" where
  "DataFrame records =
     \<lparr>datetime_column = frame_column (map irow_datetime records),
      value_column = frame_column (map irow_value records)\<rparr>"

definition parse_indicator_data :: "json \<Rightarrow> error + indicator_frame" where
  "parse_indicator_data data =
     (if \<not> truthy data then Inr (DataFrame [])
      else
        (case py_in ''indicator'' data of
           Inl e \<Rightarrow> Inl e
         | Inr present \<Rightarrow>
             (if \<not> present then Inr (DataFrame [])
              else
                (case getitem data ''indicator'' of
                   Inl e \<Rightarrow> Inl e
                 | Inr indicator \<Rightarrow>
                     (case getitem indicator ''values'' of
                        Inl e \<Rightarrow> Inl e
                      | Inr values \<Rightarrow>
                          (case py_iter values of
                             Inl e \<Rightarrow> Inl e
                           | Inr entries \<Rightarrow>
                               (case indicator_loop entries [] of
                                  Inl e \<Rightarrow> Inl e
                                | Inr records \<Rightarrow> Inr (DataFrame records))))))))"

section \<open>The guard of \<^verbatim>\<open>REEClient.to_dataframe\<close>\<close>

text \<open>
  Lines 331 to 341 of \<^verbatim>\<open>client.py\<close>: the structure check and the empty check that
  come before the frame is built. The result is the sequence \<^verbatim>\<open>values\<close> from which
  \<^verbatim>\<open>pd.DataFrame(values)\<close> is built, and the empty list where the method returns the
  empty frame \<^verbatim>\<open>pd.DataFrame()\<close>. \<^verbatim>\<open>"values" not in data["indicator"]\<close> is evaluated only
  when the first two disjuncts are false.
\<close>

definition to_dataframe_values :: "json \<Rightarrow> error + json" where
  "to_dataframe_values data =
     (if \<not> truthy data then Inr (JList [])
      else
        (case py_in ''indicator'' data of
           Inl e \<Rightarrow> Inl e
         | Inr present \<Rightarrow>
             (if \<not> present then Inr (JList [])
              else
                (case getitem data ''indicator'' of
                   Inl e \<Rightarrow> Inl e
                 | Inr indicator \<Rightarrow>
                     (case py_in ''values'' indicator of
                        Inl e \<Rightarrow> Inl e
                      | Inr has_values \<Rightarrow>
                          (if \<not> has_values then Inr (JList [])
                           else
                             (case getitem indicator ''values'' of
                                Inl e \<Rightarrow> Inl e
                              | Inr values \<Rightarrow>
                                  (if \<not> truthy values then Inr (JList []) else Inr values))))))))"

section \<open>Well-formed responses\<close>

text \<open>
  The shape the parsers expect: a dict whose \<^verbatim>\<open>'indicator'\<close> is a dict whose
  \<^verbatim>\<open>'values'\<close> is a list. \<open>indicator_values\<close> returns that list of entries.
\<close>

definition indicator_values :: "json \<Rightarrow> json list option" where
  "indicator_values data =
     (case data of
        JObject kvs \<Rightarrow>
          (case map_of kvs ''indicator'' of
             Some (JObject ikvs) \<Rightarrow>
               (case map_of ikvs ''values'' of
                  Some (JList es) \<Rightarrow> Some es
                | _ \<Rightarrow> None)
           | _ \<Rightarrow> None)
      | _ \<Rightarrow> None)"

text \<open>The field \<open>k\<close> of an entry, when the entry is a dict that has it.\<close>

definition entry_field :: "string \<Rightarrow> json \<Rightarrow> json option" where
  "entry_field k e = (case e of JObject kvs \<Rightarrow> map_of kvs k | _ \<Rightarrow> None)"


section \<open>The metrics engine: \<^verbatim>\<open>reepi/utils/data_processing.py\<close>\<close>

text \<open>
  The metrics take a frame whose rows are the Records of the data model: the columns
  \<^verbatim>\<open>'datetime'\<close>, \<^verbatim>\<open>'type'\<close> (a string) and \<^verbatim>\<open>'value'\<close>. The type of the \<^verbatim>\<open>'datetime'\<close>
  column is a parameter: strings before \<^verbatim>\<open>format_datetime\<close>, timestamps after it. The
  \<^verbatim>\<open>'value'\<close> column is an int64 column, the dtype of the tables in
  \<^verbatim>\<open>tests/test_reepi.py\<close>: a value is a 64-bit word read as a signed integer, and
  a sum of values wraps around modulo \<^verbatim>\<open>2**64\<close> as the sum of pandas does. A float64
  \<^verbatim>\<open>'value'\<close> column, whose sum depends on the order in which pandas adds, is outside the
  model.
\<close>

record 't frame_row =
  col_datetime :: 't
  col_type :: string
  col_value :: "64 word"

text \<open>The conversion of an int64 to float64.\<close>

definition to_float64 :: "64 word \<Rightarrow> rat" where
  "to_float64 w = binary64 (of_int (sint w))"

text \<open>
  \<^verbatim>\<open>a / b\<close> on two int64 scalars: both are converted to float64 and divided, the
  quotient rounded. A quotient with divisor zero has no number as its result (Python
  raises \<^verbatim>\<open>ZeroDivisionError\<close>, numpy yields \<^verbatim>\<open>nan\<close> or \<^verbatim>\<open>inf\<close>); HOL's \<open>x / 0 = 0\<close> must
  not stand in for it, so the division of the model returns an error there.
\<close>

definition true_divide :: "64 word \<Rightarrow> 64 word \<Rightarrow> error + rat" where
  "true_divide a b =
     (if b = 0 then Inl ZeroDivisionError
      else Inr (binary64 (to_float64 a / to_float64 b)))"

text \<open>The list \<^verbatim>\<open>renewable_types\<close>; the seventh letter of \<^verbatim>\<open>Hydroeolica\<close> carries an acute
  accent, two bytes in UTF-8.\<close>

definition renewable_types :: "string list" where
  "renewable_types =
     [''Hydro'', ''Wind'', ''Solar PV'', ''Solar thermal'',
      ''Hydroe'' @ [CHR 0xC3, CHR 0xB3] @ ''lica'',
      ''Geothermal'', ''Biomass'', ''Other renewables'']"

text \<open>The result is a float64; \<^verbatim>\<open>* 100.0\<close> rounds once more.\<close>

definition calculate_renewable_percentage :: "'t frame_row list \<Rightarrow> error + rat" where
  "calculate_renewable_percentage df =
     (if df = [] then Inr 0
      else
        (let renewable_df = filter (\<lambda>r. col_type r \<in> set renewable_types) df;
             renewable_sum = sum_list (map col_value renewable_df);
             total_sum = sum_list (map col_value df)
         in if total_sum = 0 then Inr 0
            else
              (case true_divide renewable_sum total_sum of
                 Inl e \<Rightarrow> Inl e
               | Inr q \<Rightarrow> Inr (binary64 (q * 100)))))"

text \<open>
  \<^verbatim>\<open>df.groupby('type')[value_col].sum().reset_index()\<close>: pandas' \<^verbatim>\<open>groupby\<close> sorts the
  group keys (its default \<^verbatim>\<open>sort=True\<close>), so the result has one row per distinct type,
  in ascending order of the type string, with the int64 sum of the group's values.
  Strings compare byte by byte, lexicographically.
\<close>

definition aggregate_by_type :: "'t frame_row list \<Rightarrow> (string \<times> 64 word) list" where
  "aggregate_by_type df =
     (if df = [] then []
      else map (\<lambda>k. (k, sum_list (map col_value (filter (\<lambda>r. col_type r = k) df))))
             (sort (remdups (map col_type df))))"

text \<open>
  \<^verbatim>\<open>pd.to_datetime\<close> is pandas' parser and not part of the repository: it is the
  parameter \<open>to_datetime\<close>. Applied to the column of timestamp strings it either raises
  (with the default \<^verbatim>\<open>errors='raise'\<close>) or returns the converted column; which strings
  it accepts can depend on the whole column, since pandas settles on one format for it.
  The converted column is given as the conversion of each string: \<open>Some\<close> of a timestamp,
  or \<open>None\<close> for \<^verbatim>\<open>NaT\<close>, the missing timestamp that pandas returns, without raising, for
  strings such as the empty one. A frame without rows has no \<^verbatim>\<open>'datetime'\<close> column or
  an empty one, and stays as it is.
\<close>

definition format_datetime ::
  "(string list \<Rightarrow> error + (string \<Rightarrow> 'ts option)) \<Rightarrow> string frame_row list
     \<Rightarrow> error + 'ts option frame_row list" where
  "format_datetime to_datetime df =
     (if df = [] then Inr []
      else
        (case to_datetime (map col_datetime df) of
           Inl e \<Rightarrow> Inl e
         | Inr converted \<Rightarrow>
             Inr (map (\<lambda>r. \<lparr>col_datetime = converted (col_datetime r), col_type = col_type r,
                               col_value = col_value r\<rparr>) df)))"

text \<open>
  \<^verbatim>\<open>df_copy['date'] = df_copy[datetime_col].dt.date\<close>, with \<open>date_of\<close> the calendar date
  of a timestamp; the date of \<^verbatim>\<open>NaT\<close> is missing too, and \<^verbatim>\<open>groupby\<close> (default
  \<^verbatim>\<open>dropna=True\<close>) leaves the rows with a missing key out of every group. \<open>dated_rows\<close>
  are the rows that take part: date, type and value.
\<close>

definition dated_rows ::
  "('ts \<Rightarrow> 'd) \<Rightarrow> 'ts option frame_row list \<Rightarrow> ('d \<times> string \<times> 64 word) list" where
  "dated_rows date_of df_copy =
     List.map_filter
       (\<lambda>r. map_option (\<lambda>ts. (date_of ts, col_type r, col_value r)) (col_datetime r)) df_copy"

text \<open>
  The groups of \<^verbatim>\<open>groupby(['date', 'type'])\<close> come out sorted by date, then type. The
  mean of a group is computed by pandas in float64 and is the parameter \<open>group_mean\<close>,
  applied to the values of the group in row order.
\<close>

definition calculate_daily_average ::
  "(string list \<Rightarrow> error + (string \<Rightarrow> 'ts option)) \<Rightarrow> ('ts \<Rightarrow> 'd::linorder)
     \<Rightarrow> (64 word list \<Rightarrow> 'm) \<Rightarrow> string frame_row list
     \<Rightarrow> error + ('d \<times> string \<times> 'm) list" where
  "calculate_daily_average to_datetime date_of group_mean df =
     (case format_datetime to_datetime df of
        Inl e \<Rightarrow> Inl e
      | Inr df_copy \<Rightarrow>
          (if df_copy = [] then Inr []
           else
             (let rows = dated_rows date_of df_copy
              in Inr (map (\<lambda>k. (fst k, snd k,
                           group_mean (map (\<lambda>row. snd (snd row))
                             (filter (\<lambda>row. (fst row, fst (snd row)) = k) rows))))
                       (sort (remdups (map (\<lambda>row. (fst row, fst (snd row))) rows)))))))"


section \<open>Notions used to state the properties\<close>

text \<open>
  A value that is none of the three shapes of the data model: not a number, not a
  sequence, not a keyed mapping. For a JSON value these are null, the strings and the
  booleans.
\<close>

fun unrecognized_shape :: "json \<Rightarrow> bool" where
  "unrecognized_shape JNull = True"
| "unrecognized_shape (JString s) = True"
| "unrecognized_shape (JBool b) = True"
| "unrecognized_shape (JInt i) = False"
| "unrecognized_shape (JFloat x) = False"
| "unrecognized_shape (JList xs) = False"
| "unrecognized_shape (JObject kvs) = False"

text \<open>
  The values for which the normalizer builds a Record, in order: the \<^verbatim>\<open>value\<close> field of
  each element of a list, the value of each pair of a mapping, the value itself when it
  passes the number test of the scalar branch; nothing for any other value.
\<close>

fun value_sources :: "json \<Rightarrow> json list" where
  "value_sources (JList gs) = List.map_filter (entry_field ''value'') gs"
| "value_sources (JObject kvs) = map snd kvs"
| "value_sources v = (if is_number v then [v] else [])"

definition entry_sources :: "json \<Rightarrow> json list" where
  "entry_sources e = (case entry_field ''value'' e of Some v \<Rightarrow> value_sources v | None \<Rightarrow> [])"

text \<open>A JSON number: an integer (here within the int64 range) or a float, not a boolean.\<close>

fun json_number :: "json \<Rightarrow> bool" where
  "json_number (JInt i) = (- (2 ^ 63) \<le> i \<and> i < 2 ^ 63)"
| "json_number (JFloat x) = True"
| "json_number v = False"

text \<open>
  An entry that has the keys the normalizer subscripts: \<^verbatim>\<open>datetime\<close> and \<^verbatim>\<open>value\<close>, and
  \<^verbatim>\<open>type\<close> and \<^verbatim>\<open>value\<close> in every element when the value is a list. Nothing is asked
  of the values themselves.
\<close>

fun keyed_value :: "json \<Rightarrow> bool" where
  "keyed_value (JList gs) =
     list_all (\<lambda>g. entry_field ''type'' g \<noteq> None \<and> entry_field ''value'' g \<noteq> None) gs"
| "keyed_value v = True"

definition well_keyed :: "json \<Rightarrow> bool" where
  "well_keyed e =
     (entry_field ''datetime'' e \<noteq> None \<and>
      (case entry_field ''value'' e of None \<Rightarrow> False | Some v \<Rightarrow> keyed_value v))"

text \<open>Every cell of the column holds a number.\<close>

fun numeric_cells :: "column \<Rightarrow> bool" where
  "numeric_cells (Int64Column ws) = True"
| "numeric_cells (Float64Column fs) = list_all (\<lambda>f. f \<noteq> NaN) fs"
| "numeric_cells (BoolColumn bs) = False"
| "numeric_cells (ObjectColumn vs) = list_all json_number vs"
| "numeric_cells UnmodelledColumn = False"

text \<open>
  The sums of the claims, over the integers: the total of all values, the total of the
  values of the renewable Records, the total of one category. \<open>exact_share\<close> is the
  renewable share in exact arithmetic.
\<close>

definition value_total :: "'t frame_row list \<Rightarrow> int" where
  "value_total df = (\<Sum>r\<leftarrow>df. sint (col_value r))"

definition renewable_total :: "'t frame_row list \<Rightarrow> int" where
  "renewable_total df = (\<Sum>r\<leftarrow>filter (\<lambda>r. col_type r \<in> set renewable_types) df. sint (col_value r))"

definition group_total :: "string \<Rightarrow> 't frame_row list \<Rightarrow> int" where
  "group_total k df = (\<Sum>r\<leftarrow>filter (\<lambda>r. col_type r = k) df. sint (col_value r))"

definition exact_share :: "'t frame_row list \<Rightarrow> rat" where
  "exact_share df = of_int (renewable_total df) / of_int (value_total df) * 100"

definition int64_range :: "int \<Rightarrow> bool" where
  "int64_range i = (- (2 ^ 63) \<le> i \<and> i < 2 ^ 63)"

text \<open>The distinct elements of a list in the order of their first occurrence.\<close>

definition first_occurrence_order :: "string list \<Rightarrow> string list" where
  "first_occurrence_order ks = rev (remdups (rev ks))"

subsection \<open>Sample data\<close>

text \<open>A response with the given entries, shaped like the fixtures of \<^verbatim>\<open>tests/test_reepi.py\<close>.\<close>

definition response :: "json list \<Rightarrow> json" where
  "response es =
     JObject [(''indicator'', JObject [(''name'', JString ''Generation Mix''), (''values'', JList es)])]"

definition entry_scalar_a :: json where
  "entry_scalar_a =
     JObject [(''datetime'', JString ''2023-01-01T00:00:00''), (''value'', JFloat (301 / 2))]"

definition entry_scalar_b :: json where
  "entry_scalar_b =
     JObject [(''datetime'', JString ''2023-01-01T01:00:00''), (''value'', JInt 145)]"

definition entry_string :: json where
  "entry_string =
     JObject [(''datetime'', JString ''2023-01-01T02:00:00''), (''value'', JString ''n/a'')]"

definition entry_null :: json where
  "entry_null = JObject [(''datetime'', JString ''2023-01-01T03:00:00''), (''value'', JNull)]"

definition entry_typed :: json where
  "entry_typed =
     JObject [(''datetime'', JString ''2023-01-01T04:00:00''),
              (''value'', JList [JObject [(''type'', JString ''Wind''), (''value'', JInt 200)],
                                 JObject [(''type'', JString ''Solar PV''), (''value'', JInt 100)]])]"

definition entry_typed_text :: json where
  "entry_typed_text =
     JObject [(''datetime'', JString ''2023-01-01T05:00:00''),
              (''value'', JList [JObject [(''type'', JString ''Wind''), (''value'', JString ''n/a'')]])]"

definition entry_no_value :: json where
  "entry_no_value = JObject [(''datetime'', JString ''2023-01-01T06:00:00'')]"

definition entry_mapping :: json where
  "entry_mapping =
     JObject [(''datetime'', JString ''2023-01-01T07:00:00''),
              (''value'', JObject [(''Wind'', JInt 200), (''Nuclear'', JFloat (801 / 2))])]"

text \<open>The tables of \<^verbatim>\<open>test_calculate_renewable_percentage\<close> and \<^verbatim>\<open>test_aggregate_by_type\<close>.\<close>

definition share_table :: "string frame_row list" where
  "share_table =
     [\<lparr>col_datetime = ''2023-01-01T00:00:00'', col_type = ''Wind'', col_value = 200\<rparr>,
      \<lparr>col_datetime = ''2023-01-01T00:00:00'', col_type = ''Solar PV'', col_value = 100\<rparr>,
      \<lparr>col_datetime = ''2023-01-01T00:00:00'', col_type = ''Nuclear'', col_value = 400\<rparr>,
      \<lparr>col_datetime = ''2023-01-01T00:00:00'', col_type = ''Coal'', col_value = 300\<rparr>]"

definition aggregate_table :: "string frame_row list" where
  "aggregate_table =
     [\<lparr>col_datetime = ''2023-01-01T00:00:00'', col_type = ''Wind'', col_value = 100\<rparr>,
      \<lparr>col_datetime = ''2023-01-01T01:00:00'', col_type = ''Wind'', col_value = 150\<rparr>,
      \<lparr>col_datetime = ''2023-01-01T00:00:00'', col_type = ''Solar PV'', col_value = 200\<rparr>,
      \<lparr>col_datetime = ''2023-01-01T01:00:00'', col_type = ''Solar PV'', col_value = 250\<rparr>]"

definition zero_table :: "string frame_row list" where
  "zero_table =
     [\<lparr>col_datetime = ''2023-01-01T00:00:00'', col_type = ''Wind'', col_value = 5\<rparr>,
      \<lparr>col_datetime = ''2023-01-01T00:00:00'', col_type = ''Coal'', col_value = - 5\<rparr>]"

text \<open>Two values of \<^verbatim>\<open>2**62\<close>: their sum is \<^verbatim>\<open>2**63\<close>, one more than the largest int64.\<close>

definition large_share_table :: "string frame_row list" where
  "large_share_table =
     [\<lparr>col_datetime = ''2023-01-01T00:00:00'', col_type = ''Wind'', col_value = 2 ^ 62\<rparr>,
      \<lparr>col_datetime = ''2023-01-01T00:00:00'', col_type = ''Coal'', col_value = 2 ^ 62\<rparr>]"

definition large_aggregate_table :: "string frame_row list" where
  "large_aggregate_table =
     [\<lparr>col_datetime = ''2023-01-01T00:00:00'', col_type = ''Wind'', col_value = 2 ^ 62\<rparr>,
      \<lparr>col_datetime = ''2023-01-01T01:00:00'', col_type = ''Wind'', col_value = 2 ^ 62\<rparr>]"

text \<open>A share of 29 in 100, which float64 does not hold exactly.\<close>

definition inexact_share_table :: "string frame_row list" where
  "inexact_share_table =
     [\<lparr>col_datetime = ''2023-01-01T00:00:00'', col_type = ''Wind'', col_value = 29\<rparr>,
      \<lparr>col_datetime = ''2023-01-01T00:00:00'', col_type = ''Coal'', col_value = 71\<rparr>]"

text \<open>A table whose second Record has the empty string as timestamp, and one whose
  second timestamp is no date at all.\<close>

definition empty_timestamp_table :: "string frame_row list" where
  "empty_timestamp_table =
     [\<lparr>col_datetime = ''2023-01-01 12:00:00'', col_type = ''Wind'', col_value = 100\<rparr>,
      \<lparr>col_datetime = '''', col_type = ''Wind'', col_value = 200\<rparr>]"

definition bad_timestamp_table :: "string frame_row list" where
  "bad_timestamp_table =
     [\<lparr>col_datetime = ''2023-01-01 12:00:00'', col_type = ''Wind'', col_value = 100\<rparr>,
      \<lparr>col_datetime = ''yesterday-ish'', col_type = ''Wind'', col_value = 200\<rparr>]"

text \<open>
  A stand-in for \<^verbatim>\<open>pd.to_datetime\<close> on the sample columns. On a column of strings that
  are empty or of the form \<^verbatim>\<open>YYYY-MM-DD hh:mm:ss\<close> it does what pandas does for valid
  dates and times: the empty string becomes \<^verbatim>\<open>NaT\<close>, the others their timestamp (kept
  as the string). On any other column it raises; pandas reads further formats, which
  the samples do not use. The date of a timestamp is its first ten characters.
\<close>

definition iso_timestamp :: "string \<Rightarrow> bool" where
  "iso_timestamp s =
     (map (\<lambda>c. if CHR ''0'' \<le> c \<and> c \<le> CHR ''9'' then CHR ''9'' else c) s
        = ''9999-99-99 99:99:99'')"

definition sample_to_datetime :: "string list \<Rightarrow> error + (string \<Rightarrow> string option)" where
  "sample_to_datetime col =
     (if list_all (\<lambda>s. s = [] \<or> iso_timestamp s) col
      then Inr (\<lambda>s. if s = [] then None else Some s)
      else Inl ValueError)"

definition sample_date :: "string \<Rightarrow> string" where
  "sample_date ts = take 10 ts"

text \<open>
  pandas' mean of a group of int64 values, for groups whose values add up exactly in
  float64 (every partial sum within \<^verbatim>\<open>2**53\<close> in size), as in the samples: the sum
  divided by the count, rounded.
\<close>

definition small_group_mean :: "64 word list \<Rightarrow> rat" where
  "small_group_mean ws = binary64 (of_int (\<Sum>w\<leftarrow>ws. sint w) / of_nat (length ws))"

section \<open>Properties of the loops\<close>

text \<open>A field that is present is what subscripting returns; a missing one makes it raise.\<close>

lemma getitem_field_Some: "entry_field k e = Some v \<Longrightarrow> getitem e k = Inr v"
  by (cases e) (simp_all add: entry_field_def)

lemma getitem_field_None: "entry_field k e = None \<Longrightarrow> \<exists>err. getitem e k = Inl err"
  by (cases e) (simp_all add: entry_field_def)

lemma getitem_Inr_field: "getitem e k = Inr v \<Longrightarrow> entry_field k e = Some v"
  by (cases e) (simp_all add: entry_field_def split: option.splits)

text \<open>
  Every loop only appends: run from the accumulator \<open>acc\<close> it raises exactly when the
  run from the empty list does, and otherwise returns \<open>acc\<close> followed by that run's
  records.
\<close>

lemma gen_type_loop_acc:
  "gen_type_loop d gs acc =
     (case gen_type_loop d gs [] of Inl e \<Rightarrow> Inl e | Inr rs \<Rightarrow> Inr (acc @ rs))"
proof (induction gs arbitrary: acc)
  case Nil
  then show ?case by simp
next
  case (Cons g gs)
  show ?case
  proof (cases "getitem g ''type''")
    case (Inl e)
    then show ?thesis by simp
  next
    case t: (Inr t)
    show ?thesis
    proof (cases "getitem g ''value''")
      case (Inl e)
      with t show ?thesis by simp
    next
      case v: (Inr v)
      let ?r = "\<lparr>row_datetime = d, row_type = t, row_value = v\<rparr>"
      have "gen_type_loop d (g # gs) acc = gen_type_loop d gs (acc @ [?r])"
        using t v by simp
      also have "\<dots> =
          (case gen_type_loop d gs [] of Inl e \<Rightarrow> Inl e | Inr rs \<Rightarrow> Inr ((acc @ [?r]) @ rs))"
        by (rule Cons.IH)
      finally have from_acc: "gen_type_loop d (g # gs) acc =
          (case gen_type_loop d gs [] of Inl e \<Rightarrow> Inl e | Inr rs \<Rightarrow> Inr (acc @ ?r # rs))"
        by (simp split: sum.splits)
      have "gen_type_loop d (g # gs) [] = gen_type_loop d gs [?r]"
        using t v by simp
      also have "\<dots> =
          (case gen_type_loop d gs [] of Inl e \<Rightarrow> Inl e | Inr rs \<Rightarrow> Inr ([?r] @ rs))"
        by (rule Cons.IH)
      finally have from_nil: "gen_type_loop d (g # gs) [] =
          (case gen_type_loop d gs [] of Inl e \<Rightarrow> Inl e | Inr rs \<Rightarrow> Inr (?r # rs))"
        by (simp split: sum.splits)
      show ?thesis unfolding from_acc from_nil by (simp split: sum.splits)
    qed
  qed
qed

lemma items_loop_acc:
  "items_loop d kvs acc =
     acc @ map (\<lambda>kv. \<lparr>row_datetime = d, row_type = JString (fst kv), row_value = snd kv\<rparr>) kvs"
  by (induction d kvs acc rule: items_loop.induct) simp_all

lemma dispatch_acc:
  "dispatch d v acc = (case dispatch d v [] of Inl e \<Rightarrow> Inl e | Inr rs \<Rightarrow> Inr (acc @ rs))"
proof (cases v)
  case (JList gs)
  then show ?thesis using gen_type_loop_acc [of d gs acc] by simp
next
  case (JObject kvs)
  then show ?thesis by (simp add: items_loop_acc)
qed simp_all

lemma entry_step_acc:
  "entry_step e acc =
     (case entry_step e [] of Inl err \<Rightarrow> Inl err | Inr rs \<Rightarrow> Inr (acc @ rs))"
  unfolding entry_step_def using dispatch_acc [of _ _ acc]
  by (simp split: sum.splits)

lemma values_loop_acc:
  "values_loop es acc =
     (case values_loop es [] of Inl err \<Rightarrow> Inl err | Inr rs \<Rightarrow> Inr (acc @ rs))"
proof (induction es arbitrary: acc)
  case Nil
  then show ?case by simp
next
  case (Cons e es)
  show ?case
  proof (cases "entry_step e []")
    case (Inl err)
    then show ?thesis using entry_step_acc [of e acc] by simp
  next
    case (Inr rs)
    then have st: "entry_step e acc = Inr (acc @ rs)"
      using entry_step_acc [of e acc] by simp
    show ?thesis
      using Inr st Cons.IH [of "acc @ rs"] Cons.IH [of rs]
      by (simp split: sum.splits)
  qed
qed

lemma values_loop_append:
  "values_loop (xs @ ys) acc =
     (case values_loop xs acc of Inl err \<Rightarrow> Inl err | Inr rs \<Rightarrow> values_loop ys rs)"
  by (induction xs arbitrary: acc) (simp_all split: sum.splits)

text \<open>The records of a response are those of the entries before an entry, then the
  entry's own, then those of the entries after it.\<close>

lemma values_loop_split:
  assumes "values_loop before [] = Inr r1" and "entry_step entry [] = Inr rs"
    and "values_loop after [] = Inr r2"
  shows "values_loop (before @ [entry] @ after) [] = Inr (r1 @ rs @ r2)"
proof -
  have "entry_step entry r1 = Inr (r1 @ rs)"
    using assms(2) entry_step_acc [of entry r1] by simp
  moreover have "values_loop after (r1 @ rs) = Inr ((r1 @ rs) @ r2)"
    using assms(3) values_loop_acc [of after "r1 @ rs"] by simp
  ultimately show ?thesis
    using assms(1) by (simp add: values_loop_append)
qed

text \<open>On a well-formed response both guards pass and the parser is its loop.\<close>

lemma parse_generation_data_values:
  assumes "indicator_values data = Some es"
  shows "parse_generation_data data = values_loop es []"
  using assms
  by (auto simp: indicator_values_def parse_generation_data_def
      split: json.splits option.splits)

lemma parse_indicator_data_values:
  assumes "indicator_values data = Some es"
  shows "parse_indicator_data data =
    (case indicator_loop es [] of Inl e \<Rightarrow> Inl e | Inr records \<Rightarrow> Inr (DataFrame records))"
  using assms
  by (auto simp: indicator_values_def parse_indicator_data_def
      split: json.splits option.splits)

lemma indicator_values_response: "indicator_values (response es) = Some es"
  by (simp add: indicator_values_def response_def)

lemma entry_step_fields:
  assumes "entry_field ''datetime'' e = Some d" and "entry_field ''value'' e = Some v"
  shows "entry_step e acc = dispatch d v acc"
  using assms by (simp add: entry_step_def getitem_field_Some)

section \<open>The inputs on which the normalizer returns the empty table\<close>

lemma parse_generation_data_None: "parse_generation_data JNull = Inr []"
  by (simp add: parse_generation_data_def)

lemma parse_generation_data_empty_dict: "parse_generation_data (JObject []) = Inr []"
  by (simp add: parse_generation_data_def)

lemma parse_generation_data_no_indicator:
  "map_of kvs ''indicator'' = None \<Longrightarrow> parse_generation_data (JObject kvs) = Inr []"
  by (simp add: parse_generation_data_def)

lemma parse_generation_data_empty_values:
  "indicator_values data = Some [] \<Longrightarrow> parse_generation_data data = Inr []"
  by (simp add: parse_generation_data_values)

text \<open>
  Claim C1. For every input that is null or absent, that lacks the expected
  indicator-values path, or whose values sequence is empty, the normalizer returns
  an empty table and does not raise. The lemmas above confirm this for \<^verbatim>\<open>None\<close>, for
  \<^verbatim>\<open>{}\<close>, for a dict without \<^verbatim>\<open>'indicator'\<close> and for an empty values list. It fails
  when \<^verbatim>\<open>'indicator'\<close> is present and \<^verbatim>\<open>'values'\<close> is not: \<^verbatim>\<open>parse_generation_data\<close> tests
  only the first key and then subscripts the second, which raises \<^verbatim>\<open>KeyError\<close>. The
  input below is the third case of \<^verbatim>\<open>test_to_dataframe_empty\<close>, on which the sibling
  \<^verbatim>\<open>REEClient.to_dataframe\<close>, which does test \<^verbatim>\<open>"values" not in data["indicator"]\<close>,
  returns the empty frame.
\<close>

theorem parse_generation_data_missing_values_raises:
  "parse_generation_data (JObject [(''indicator'', JObject [(''name'', JString ''Test'')])])
     = Inl (KeyError ''values'')
   \<and> to_dataframe_values (JObject [(''indicator'', JObject [(''name'', JString ''Test'')])])
     = Inr (JList [])"
  by (simp add: parse_generation_data_def to_dataframe_values_def)


section \<open>The shape dispatch of the normalizer\<close>

text \<open>
  An entry whose value is null or a string (an unrecognized shape that also fails the
  number test of the scalar branch) leaves no Record: the result is the one the loop
  gives on the sequence without the entry, and \<open>r1 @ r2\<close> when the entries before and
  after it yield \<open>r1\<close> and \<open>r2\<close>.
\<close>

lemma null_or_string_entry_skipped:
  assumes "indicator_values data = Some (before @ [entry] @ after)"
    and "entry_field ''datetime'' entry = Some d"
    and "entry_field ''value'' entry = Some v"
    and "unrecognized_shape v" and "\<not> is_number v"
  shows "parse_generation_data data = values_loop (before @ after) []
    \<and> (values_loop before [] = Inr r1 \<longrightarrow> values_loop after [] = Inr r2 \<longrightarrow>
         parse_generation_data data = Inr (r1 @ r2))"
proof -
  have skip: "entry_step entry acc = Inr acc" for acc
    using entry_step_fields [OF assms(2,3)] assms(4,5) by (cases v) simp_all
  have "values_loop (before @ [entry] @ after) [] = values_loop (before @ after) []"
    by (simp add: values_loop_append skip split: sum.splits)
  then have same: "parse_generation_data data = values_loop (before @ after) []"
    using parse_generation_data_values [OF assms(1)] by simp
  have "parse_generation_data data = Inr (r1 @ r2)"
    if "values_loop before [] = Inr r1" and "values_loop after [] = Inr r2"
    using parse_generation_data_values [OF assms(1)] values_loop_split [OF that(1) skip that(2)]
    by simp
  with same show ?thesis by blast
qed

text \<open>A string-valued entry between a scalar entry and a typed-list entry: the two
  neighbours are normalized, the string entry leaves no Record.\<close>

lemma string_entry_skipped_sample:
  "parse_generation_data (response [entry_scalar_a, entry_string, entry_typed]) =
     Inr [\<lparr>row_datetime = JString ''2023-01-01T00:00:00'', row_type = JString ''total'',
            row_value = JFloat (301 / 2)\<rparr>,
          \<lparr>row_datetime = JString ''2023-01-01T04:00:00'', row_type = JString ''Wind'',
            row_value = JInt 200\<rparr>,
          \<lparr>row_datetime = JString ''2023-01-01T04:00:00'', row_type = JString ''Solar PV'',
            row_value = JInt 100\<rparr>]"
  by (simp add: parse_generation_data_values [OF indicator_values_response] entry_step_def
      entry_scalar_a_def entry_string_def entry_typed_def)

text \<open>The mapping branch: one Record per pair, in the order of the pairs, with the key
  as category.\<close>

lemma mapping_entry_records:
  assumes "indicator_values data = Some (before @ [entry] @ after)"
    and "entry_field ''datetime'' entry = Some d"
    and "entry_field ''value'' entry = Some (JObject kvs)"
    and "values_loop before [] = Inr r1"
    and "values_loop after [] = Inr r2"
  shows "parse_generation_data data =
    Inr (r1 @ map (\<lambda>kv. \<lparr>row_datetime = d, row_type = JString (fst kv), row_value = snd kv\<rparr>) kvs
          @ r2)"
proof -
  have "entry_step entry [] =
      Inr (map (\<lambda>kv. \<lparr>row_datetime = d, row_type = JString (fst kv), row_value = snd kv\<rparr>) kvs)"
    using entry_step_fields [OF assms(2,3)] by (simp add: items_loop_acc)
  then show ?thesis
    using parse_generation_data_values [OF assms(1)] values_loop_split [OF assms(4) _ assms(5)]
    by simp
qed

text \<open>
  Claim C2. When the values sequence contains an entry whose value field is present
  but of an unrecognized shape, the normalizer skips that entry, still emits the Records
  of the other entries, and does not raise. This holds for a null and for a string
  (lemma \<open>null_or_string_entry_skipped\<close>). It fails for a boolean, which is none of the
  three shapes: \<^verbatim>\<open>bool\<close> is a subclass of \<^verbatim>\<open>int\<close>, so \<^verbatim>\<open>isinstance(value_data, (int, float))\<close>
  accepts it, and the branch that the source comments as "value is a single number"
  emits a Record with category \<^verbatim>\<open>"total"\<close> and value \<^verbatim>\<open>True\<close> instead of skipping the
  entry.
\<close>

theorem boolean_entry_emitted_as_total:
  "unrecognized_shape (JBool True)
   \<and> parse_generation_data
       (JObject [(''indicator'', JObject [(''values'', JList
          [JObject [(''datetime'', JString ''2023-01-01T00:00:00''),
                    (''value'', JBool True)]])])])
     = Inr [\<lparr>row_datetime = JString ''2023-01-01T00:00:00'', row_type = JString ''total'',
              row_value = JBool True\<rparr>]"
  by (simp add: parse_generation_data_def entry_step_def)

text \<open>The scalar branch, over a whole response of number-valued entries.\<close>

lemma values_loop_scalars:
  assumes "list_all2 (\<lambda>e dv. entry_field ''datetime'' e = Some (fst dv) \<and>
             entry_field ''value'' e = Some (snd dv) \<and> is_number (snd dv)) es dvs"
  shows "values_loop es acc =
    Inr (acc @ map (\<lambda>dv. \<lparr>row_datetime = fst dv, row_type = JString ''total'',
                            row_value = snd dv\<rparr>) dvs)"
  using assms
proof (induction es dvs arbitrary: acc rule: list_all2_induct)
  case Nil
  then show ?case by simp
next
  case (Cons e es dv dvs)
  have "entry_step e acc = dispatch (fst dv) (snd dv) acc"
    using Cons.hyps(1) by (simp add: entry_step_fields)
  also have "\<dots> = Inr (acc @ [\<lparr>row_datetime = fst dv, row_type = JString ''total'',
                                   row_value = snd dv\<rparr>])"
    using Cons.hyps(1) by (cases "snd dv") simp_all
  finally show ?case using Cons.IH by simp
qed

text \<open>
  Claim C3. For a valid response with N value-entries, each of whose value field is a
  plain number, the normalizer yields a table with exactly N Records, each with
  category \<^verbatim>\<open>"total"\<close> and the entry's number as value. Here \<open>dvs\<close> lists the timestamp
  and the number of each entry, in order.
\<close>

theorem scalar_entries_total:
  assumes "indicator_values data = Some es"
    and "list_all2 (\<lambda>e dv. entry_field ''datetime'' e = Some (fst dv) \<and>
             entry_field ''value'' e = Some (snd dv) \<and> is_number (snd dv)) es dvs"
  shows "parse_generation_data data =
      Inr (map (\<lambda>dv. \<lparr>row_datetime = fst dv, row_type = JString ''total'',
                         row_value = snd dv\<rparr>) dvs)
    \<and> length dvs = length es"
  using parse_generation_data_values [OF assms(1)] values_loop_scalars [OF assms(2), of "[]"]
    list_all2_lengthD [OF assms(2)]
  by simp

theorem scalar_entries_total_witness:
  "indicator_values (response [entry_scalar_a, entry_scalar_b])
     = Some [entry_scalar_a, entry_scalar_b]
   \<and> parse_generation_data (response [entry_scalar_a, entry_scalar_b]) =
       Inr [\<lparr>row_datetime = JString ''2023-01-01T00:00:00'', row_type = JString ''total'',
              row_value = JFloat (301 / 2)\<rparr>,
            \<lparr>row_datetime = JString ''2023-01-01T01:00:00'', row_type = JString ''total'',
              row_value = JInt 145\<rparr>]"
proof -
  let ?dvs = "[(JString ''2023-01-01T00:00:00'', JFloat (301 / 2)),
               (JString ''2023-01-01T01:00:00'', JInt 145)]"
  have h1: "indicator_values (response [entry_scalar_a, entry_scalar_b])
      = Some [entry_scalar_a, entry_scalar_b]"
    by (simp add: indicator_values_response)
  have h2: "list_all2 (\<lambda>e dv. entry_field ''datetime'' e = Some (fst dv) \<and>
             entry_field ''value'' e = Some (snd dv) \<and> is_number (snd dv))
             [entry_scalar_a, entry_scalar_b] ?dvs"
    by (simp add: entry_field_def entry_scalar_a_def entry_scalar_b_def)
  from scalar_entries_total [OF h1 h2] h1 show ?thesis by simp
qed

text \<open>The list branch: one Record per element, in the order of the elements.\<close>

lemma gen_type_loop_typed:
  assumes "list_all2 (\<lambda>g tv. entry_field ''type'' g = Some (fst tv) \<and>
             entry_field ''value'' g = Some (snd tv)) gs tvs"
  shows "gen_type_loop d gs acc =
    Inr (acc @ map (\<lambda>tv. \<lparr>row_datetime = d, row_type = fst tv, row_value = snd tv\<rparr>) tvs)"
  using assms
  by (induction gs tvs arbitrary: acc rule: list_all2_induct) (simp_all add: getitem_field_Some)

text \<open>
  Claim C4. For an entry whose value field is a sequence of elements that each supply
  \<^verbatim>\<open>type\<close> and \<^verbatim>\<open>value\<close>, the normalizer emits exactly one Record per element, in the
  order of the elements, with the element's type as category and the element's value
  as value. Here \<open>tvs\<close> lists the type and the value of each element; \<open>r1\<close> and \<open>r2\<close>
  are the Records of the entries before and after the entry.
\<close>

theorem typed_list_entry_records:
  assumes "indicator_values data = Some (before @ [entry] @ after)"
    and "entry_field ''datetime'' entry = Some d"
    and "entry_field ''value'' entry = Some (JList gs)"
    and "list_all2 (\<lambda>g tv. entry_field ''type'' g = Some (fst tv) \<and>
           entry_field ''value'' g = Some (snd tv)) gs tvs"
    and "values_loop before [] = Inr r1"
    and "values_loop after [] = Inr r2"
  shows "parse_generation_data data =
    Inr (r1 @ map (\<lambda>tv. \<lparr>row_datetime = d, row_type = fst tv, row_value = snd tv\<rparr>) tvs @ r2)"
proof -
  have "entry_step entry [] =
      Inr (map (\<lambda>tv. \<lparr>row_datetime = d, row_type = fst tv, row_value = snd tv\<rparr>) tvs)"
    using entry_step_fields [OF assms(2,3)] gen_type_loop_typed [OF assms(4), of d "[]"] by simp
  then show ?thesis
    using parse_generation_data_values [OF assms(1)] values_loop_split [OF assms(5) _ assms(6)]
    by simp
qed

theorem typed_list_entry_records_witness:
  "parse_generation_data (response [entry_scalar_b, entry_typed, entry_null]) =
     Inr [\<lparr>row_datetime = JString ''2023-01-01T01:00:00'', row_type = JString ''total'',
            row_value = JInt 145\<rparr>,
          \<lparr>row_datetime = JString ''2023-01-01T04:00:00'', row_type = JString ''Wind'',
            row_value = JInt 200\<rparr>,
          \<lparr>row_datetime = JString ''2023-01-01T04:00:00'', row_type = JString ''Solar PV'',
            row_value = JInt 100\<rparr>]"
proof -
  let ?gs = "[JObject [(''type'', JString ''Wind''), (''value'', JInt 200)],
              JObject [(''type'', JString ''Solar PV''), (''value'', JInt 100)]]"
  let ?tvs = "[(JString ''Wind'', JInt 200), (JString ''Solar PV'', JInt 100)]"
  let ?r1 = "[\<lparr>row_datetime = JString ''2023-01-01T01:00:00'', row_type = JString ''total'',
              row_value = JInt 145\<rparr>]"
  have h1: "indicator_values (response [entry_scalar_b, entry_typed, entry_null])
      = Some ([entry_scalar_b] @ [entry_typed] @ [entry_null])"
    by (simp add: indicator_values_response)
  have h2: "entry_field ''datetime'' entry_typed = Some (JString ''2023-01-01T04:00:00'')"
    by (simp add: entry_field_def entry_typed_def)
  have h3: "entry_field ''value'' entry_typed = Some (JList ?gs)"
    by (simp add: entry_field_def entry_typed_def)
  have h4: "list_all2 (\<lambda>g tv. entry_field ''type'' g = Some (fst tv) \<and>
           entry_field ''value'' g = Some (snd tv)) ?gs ?tvs"
    by (simp add: entry_field_def)
  have h5: "values_loop [entry_scalar_b] [] = Inr ?r1"
    by (simp add: entry_step_def entry_scalar_b_def)
  have h6: "values_loop [entry_null] [] = Inr []"
    by (simp add: entry_step_def entry_null_def)
  from typed_list_entry_records [OF h1 h2 h3 h4 h5 h6] show ?thesis by simp
qed


section \<open>The metrics engine\<close>

text \<open>The int64 sum of a column is the integer sum of its values reduced modulo
  \<^verbatim>\<open>2**64\<close>, and is that integer sum when it lies in the int64 range.\<close>

lemma sum_list_int64: "(sum_list ws :: 64 word) = word_of_int (\<Sum>w\<leftarrow>ws. sint w)"
  by (induction ws) simp_all

lemma sint_sum_list_int64:
  assumes "int64_range (\<Sum>w\<leftarrow>ws. sint w)"
  shows "sint (sum_list ws :: 64 word) = (\<Sum>w\<leftarrow>ws. sint w)"
  unfolding sum_list_int64 [of ws] using assms
  by (simp add: int64_range_def sint_sbintrunc' signed_take_bit_int_eq_self)

lemma total_sum_int64:
  "int64_range (value_total df) \<Longrightarrow> sint (sum_list (map col_value df)) = value_total df"
  using sint_sum_list_int64 [of "map col_value df"] by (simp add: value_total_def comp_def)

lemma renewable_sum_int64:
  "int64_range (renewable_total df) \<Longrightarrow>
   sint (sum_list (map col_value (filter (\<lambda>r. col_type r \<in> set renewable_types) df)))
     = renewable_total df"
  using sint_sum_list_int64 [of "map col_value (filter (\<lambda>r. col_type r \<in> set renewable_types) df)"]
  by (simp add: renewable_total_def comp_def)

lemma group_sum_int64:
  "sum_list (map col_value (filter (\<lambda>r. col_type r = k) df)) = word_of_int (group_total k df)"
  using sum_list_int64 [of "map col_value (filter (\<lambda>r. col_type r = k) df)"]
  by (simp add: group_total_def comp_def)

text \<open>The float64 arithmetic of the samples.\<close>

lemma float64_share_30: "binary64 (binary64 (binary64 300 / binary64 1000) * 100) = 30"
  by code_simp

lemma float64_share_wrapped:
  "binary64 (binary64 (binary64 (2 ^ 62) / binary64 (- (2 ^ 63))) * 100) = - 50"
  by code_simp

lemma float64_share_29:
  "binary64 (binary64 (binary64 29 / binary64 100) * 100) = 8162774324609023 / 281474976710656"
  by code_simp

text \<open>
  Claim C5, as stated: for every table the renewable share is the sum of value over the
  renewable Records, divided by the sum over all Records, times 100. Two tables on
  which it is not. With Wind and Coal at \<^verbatim>\<open>2**62\<close> each the share is 50, but the int64
  total wraps around to \<^verbatim>\<open>-2**63\<close> and the function returns -50. With Wind 29 and Coal 71
  the share is 29, but the float64 quotient and product round, and the function returns
  28.999999999999996.
\<close>

theorem renewable_share_wraps_and_rounds:
  "calculate_renewable_percentage large_share_table = Inr (- 50)
   \<and> exact_share large_share_table = 50
   \<and> calculate_renewable_percentage inexact_share_table
       = Inr (8162774324609023 / 281474976710656)
   \<and> exact_share inexact_share_table = 29"
proof -
  have "calculate_renewable_percentage large_share_table = Inr (- 50)"
    using float64_share_wrapped
    by (simp add: calculate_renewable_percentage_def large_share_table_def renewable_types_def
        true_divide_def to_float64_def)
  moreover have "exact_share large_share_table = 50"
    by (simp add: exact_share_def renewable_total_def value_total_def large_share_table_def
        renewable_types_def)
  moreover have "calculate_renewable_percentage inexact_share_table
       = Inr (8162774324609023 / 281474976710656)"
    using float64_share_29
    by (simp add: calculate_renewable_percentage_def inexact_share_table_def renewable_types_def
        true_divide_def to_float64_def)
  moreover have "exact_share inexact_share_table = 29"
    by (simp add: exact_share_def renewable_total_def value_total_def inexact_share_table_def
        renewable_types_def)
  ultimately show ?thesis by blast
qed

text \<open>
  Claim C5, amended. For every integer-valued table whose renewable sum and total sum lie
  in the int64 range and whose total is not zero, the renewable share is the renewable
  sum divided by the total sum, times 100, computed in float64: both sums are converted
  to float64, and the quotient and the product are each rounded to the nearest float64.
  On the table Wind 200, Solar PV 100, Nuclear 400, Coal 300 it is exactly 30.
\<close>

theorem renewable_share_float64:
  "(int64_range (renewable_total df) \<longrightarrow> int64_range (value_total df) \<longrightarrow>
      value_total df \<noteq> 0 \<longrightarrow>
      calculate_renewable_percentage df =
        Inr (binary64 (binary64 (binary64 (of_int (renewable_total df))
                                   / binary64 (of_int (value_total df))) * 100)))
   \<and> calculate_renewable_percentage share_table = Inr 30"
proof -
  have "calculate_renewable_percentage share_table = Inr 30"
    using float64_share_30
    by (simp add: calculate_renewable_percentage_def share_table_def renewable_types_def
        true_divide_def to_float64_def)
  moreover have "calculate_renewable_percentage df =
        Inr (binary64 (binary64 (binary64 (of_int (renewable_total df))
                                   / binary64 (of_int (value_total df))) * 100))"
    if r: "int64_range (renewable_total df)" and t: "int64_range (value_total df)"
      and nz: "value_total df \<noteq> 0"
  proof -
    have total: "sint (sum_list (map col_value df)) = value_total df"
      using t by (rule total_sum_int64)
    have renewable:
      "sint (sum_list (map col_value (filter (\<lambda>r. col_type r \<in> set renewable_types) df)))
        = renewable_total df"
      using r by (rule renewable_sum_int64)
    have "sint (sum_list (map col_value df)) \<noteq> 0" using total nz by simp
    then have word_nz: "sum_list (map col_value df) \<noteq> 0" by auto
    have "df \<noteq> []" using word_nz by auto
    moreover have "to_float64 (sum_list (map col_value df)) = binary64 (of_int (value_total df))"
      unfolding to_float64_def total ..
    moreover have
      "to_float64 (sum_list (map col_value (filter (\<lambda>r. col_type r \<in> set renewable_types) df)))
         = binary64 (of_int (renewable_total df))"
      unfolding to_float64_def renewable ..
    ultimately show ?thesis
      using word_nz
      by (simp add: calculate_renewable_percentage_def true_divide_def Let_def)
  qed
  ultimately show ?thesis by blast
qed

theorem renewable_share_float64_witness:
  "int64_range (renewable_total share_table) \<and> int64_range (value_total share_table)
   \<and> value_total share_table \<noteq> 0
   \<and> calculate_renewable_percentage share_table =
       Inr (binary64 (binary64 (binary64 300 / binary64 1000) * 100))"
proof -
  have r: "renewable_total share_table = 300"
    by (simp add: renewable_total_def share_table_def renewable_types_def)
  have t: "value_total share_table = 1000"
    by (simp add: value_total_def share_table_def)
  have h1: "int64_range (renewable_total share_table)"
    and h2: "int64_range (value_total share_table)"
    and h3: "value_total share_table \<noteq> 0"
    unfolding r t by (simp_all add: int64_range_def)
  from renewable_share_float64 [of share_table] h1 h2 h3
  have "calculate_renewable_percentage share_table =
        Inr (binary64 (binary64 (binary64 (of_int (renewable_total share_table))
                                   / binary64 (of_int (value_total share_table))) * 100))"
    by blast
  then show ?thesis using h1 h2 h3 unfolding r t by simp
qed

text \<open>
  Claim C6. The renewable share is exactly 0 for every empty table and for every table
  whose total sum of value is exactly zero: a defined result (\<open>Inr 0\<close>), not a
  division-by-zero error. The total that the function tests is the int64 sum; a total
  that is zero over the integers is zero as an int64.
\<close>

theorem renewable_share_zero:
  "(df = [] \<longrightarrow> calculate_renewable_percentage df = Inr 0)
   \<and> (sum_list (map col_value df) = 0 \<longrightarrow> calculate_renewable_percentage df = Inr 0)
   \<and> (value_total df = 0 \<longrightarrow> calculate_renewable_percentage df = Inr 0)"
proof -
  have "sum_list (map col_value df) = 0" if "value_total df = 0"
    using that sum_list_int64 [of "map col_value df"] by (simp add: value_total_def comp_def)
  then show ?thesis by (simp add: calculate_renewable_percentage_def)
qed

theorem renewable_share_zero_witness:
  "value_total zero_table = 0
   \<and> calculate_renewable_percentage zero_table = Inr 0
   \<and> calculate_renewable_percentage ([] :: string frame_row list) = Inr 0"
proof -
  have z: "value_total zero_table = 0" by (simp add: value_total_def zero_table_def)
  from renewable_share_zero [of zero_table] z
  have a: "calculate_renewable_percentage zero_table = Inr 0" by blast
  from renewable_share_zero [of "[] :: string frame_row list"]
  have b: "calculate_renewable_percentage ([] :: string frame_row list) = Inr 0" by blast
  from z a b show ?thesis by blast
qed

text \<open>The keys of the aggregate, and the sum found under each.\<close>

lemma aggregate_keys:
  "map fst (aggregate_by_type df) = sort (remdups (map col_type df))"
  by (simp add: aggregate_by_type_def comp_def)

lemma aggregate_lookup:
  assumes "k \<in> col_type ` set df"
  shows "map_of (aggregate_by_type df) k = Some (word_of_int (group_total k df))"
proof -
  have "df \<noteq> []" using assms by auto
  moreover have "k \<in> set (sort (remdups (map col_type df)))" using assms by simp
  ultimately show ?thesis
    by (simp add: aggregate_by_type_def map_of_map_restrict group_sum_int64)
qed

text \<open>
  Claim C7, as stated: the aggregate maps each distinct category to the sum of value
  over that category's Records, and its output order is that of first occurrence in the
  input, not alphabetic. On the claim's own table Wind, Wind, Solar PV, Solar PV the
  first occurrences are Wind, then Solar PV, and the result lists Solar PV first. And on
  two Wind Records of \<^verbatim>\<open>2**62\<close> each, whose sum is \<^verbatim>\<open>2**63\<close>, the int64 group sum wraps
  around: the row holds \<^verbatim>\<open>-2**63\<close>.
\<close>

theorem aggregate_order_not_first_occurrence:
  "aggregate_by_type aggregate_table = [(''Solar PV'', 450), (''Wind'', 250)]
   \<and> first_occurrence_order (map col_type aggregate_table) = [''Wind'', ''Solar PV'']
   \<and> map fst (aggregate_by_type aggregate_table)
       \<noteq> first_occurrence_order (map col_type aggregate_table)
   \<and> map fst (aggregate_by_type large_aggregate_table) = [''Wind'']
   \<and> map (sint \<circ> snd) (aggregate_by_type large_aggregate_table) = [- (2 ^ 63)]
   \<and> group_total ''Wind'' large_aggregate_table = 2 ^ 63"
  by (simp add: aggregate_by_type_def aggregate_table_def first_occurrence_order_def
      large_aggregate_table_def group_total_def)

text \<open>
  Claim C7, amended. For every integer-valued table the aggregate has one row per
  distinct category, in strictly ascending order of the category string, not in the
  order of first occurrence. The row of a category holds the int64 sum of value over that
  category's Records: the sum itself whenever it lies in the int64 range, the sum
  reduced modulo \<^verbatim>\<open>2**64\<close> otherwise. On Wind 100, Wind 150, Solar PV 200, Solar PV 250
  it is Solar PV 450, Wind 250.
\<close>

theorem aggregate_by_type_sorted_sums:
  "sorted_wrt (<) (map fst (aggregate_by_type df))
   \<and> set (map fst (aggregate_by_type df)) = col_type ` set df
   \<and> (\<forall>k \<in> col_type ` set df.
        \<exists>w. map_of (aggregate_by_type df) k = Some w
          \<and> w = word_of_int (group_total k df)
          \<and> (int64_range (group_total k df) \<longrightarrow> sint w = group_total k df))"
proof -
  have "sorted (sort (remdups (map col_type df)))" by simp
  moreover have "distinct (sort (remdups (map col_type df)))" by simp
  ultimately have "sorted_wrt (<) (map fst (aggregate_by_type df))"
    unfolding aggregate_keys by (simp add: strict_sorted_iff)
  moreover have "set (map fst (aggregate_by_type df)) = col_type ` set df"
    unfolding aggregate_keys by simp
  moreover have "sint (word_of_int (group_total k df) :: 64 word) = group_total k df"
    if "int64_range (group_total k df)" for k
    using that by (simp add: int64_range_def sint_sbintrunc' signed_take_bit_int_eq_self)
  ultimately show ?thesis using aggregate_lookup by blast
qed

theorem aggregate_by_type_sorted_sums_witness:
  "''Wind'' \<in> col_type ` set aggregate_table
   \<and> int64_range (group_total ''Wind'' aggregate_table)
   \<and> (\<exists>w. map_of (aggregate_by_type aggregate_table) ''Wind'' = Some w \<and> sint w = 250)
   \<and> sorted_wrt (<) (map fst (aggregate_by_type aggregate_table))"
proof -
  have w: "''Wind'' \<in> col_type ` set aggregate_table"
    by (simp add: aggregate_table_def)
  have total: "group_total ''Wind'' aggregate_table = 250"
    by (simp add: group_total_def aggregate_table_def)
  have range: "int64_range (group_total ''Wind'' aggregate_table)"
    unfolding total by (simp add: int64_range_def)
  note agg = aggregate_by_type_sorted_sums [of aggregate_table]
  from agg w range
  have "\<exists>w. map_of (aggregate_by_type aggregate_table) ''Wind'' = Some w
      \<and> sint w = group_total ''Wind'' aggregate_table"
    by blast
  moreover from agg have "sorted_wrt (<) (map fst (aggregate_by_type aggregate_table))"
    by blast
  ultimately show ?thesis using w range unfolding total by blast
qed

text \<open>The conversion of the timestamp column is not caught, and a row whose timestamp
  became \<^verbatim>\<open>NaT\<close> is in no group.\<close>

lemma format_datetime_raises:
  assumes "df \<noteq> []" and "to_datetime (map col_datetime df) = Inl e"
  shows "format_datetime to_datetime df = Inl e"
  using assms by (simp add: format_datetime_def)

lemma set_map_filter_eq: "set (List.map_filter f xs) = {y. \<exists>x \<in> set xs. f x = Some y}"
  by (induction xs) (auto simp: map_filter_simps split: option.splits)

lemma dated_rows_keys:
  "set (map (\<lambda>row. (fst row, fst (snd row))) (dated_rows date_of df_copy))
     = {(date_of ts, col_type r) | r ts. r \<in> set df_copy \<and> col_datetime r = Some ts}"
  by (force simp: dated_rows_def set_map_filter_eq image_iff)

lemma daily_average_keys:
  assumes "calculate_daily_average to_datetime date_of group_mean df = Inr rows"
    and "to_datetime (map col_datetime df) = Inr converted"
  shows "set (map (\<lambda>row. (fst row, fst (snd row))) rows)
    = {(date_of ts, col_type r) | r ts. r \<in> set df \<and> converted (col_datetime r) = Some ts}"
proof (cases "df = []")
  case True
  then show ?thesis using assms(1)
    by (auto simp: calculate_daily_average_def format_datetime_def)
next
  case False
  let ?df_copy = "map (\<lambda>r. \<lparr>col_datetime = converted (col_datetime r), col_type = col_type r,
                               col_value = col_value r\<rparr>) df"
  have fmt: "format_datetime to_datetime df = Inr ?df_copy"
    using False assms(2) by (simp add: format_datetime_def)
  let ?keys = "sort (remdups (map (\<lambda>row. (fst row, fst (snd row))) (dated_rows date_of ?df_copy)))"
  have "rows = map (\<lambda>k. (fst k, snd k,
                    group_mean (map (\<lambda>row. snd (snd row))
                      (filter (\<lambda>row. (fst row, fst (snd row)) = k)
                        (dated_rows date_of ?df_copy))))) ?keys"
    using assms(1) False fmt by (simp add: calculate_daily_average_def Let_def)
  then have "map (\<lambda>row. (fst row, fst (snd row))) rows = ?keys"
    by (simp add: comp_def)
  then have "set (map (\<lambda>row. (fst row, fst (snd row))) rows)
      = set (map (\<lambda>row. (fst row, fst (snd row))) (dated_rows date_of ?df_copy))"
    by simp
  also have "\<dots> = {(date_of ts, col_type r) | r ts. r \<in> set ?df_copy \<and> col_datetime r = Some ts}"
    by (rule dated_rows_keys)
  also have "\<dots> = {(date_of ts, col_type r) | r ts. r \<in> set df \<and> converted (col_datetime r) = Some ts}"
    by force
  finally show ?thesis .
qed

text \<open>With every timestamp parseable the daily average is defined: the sample of
  \<^verbatim>\<open>test_calculate_daily_average\<close>, two days with two Wind readings each.\<close>

lemma daily_average_sample:
  "calculate_daily_average sample_to_datetime sample_date small_group_mean
     [\<lparr>col_datetime = ''2023-01-01 12:00:00'', col_type = ''Wind'', col_value = 100\<rparr>,
      \<lparr>col_datetime = ''2023-01-01 18:00:00'', col_type = ''Wind'', col_value = 200\<rparr>,
      \<lparr>col_datetime = ''2023-01-02 12:00:00'', col_type = ''Wind'', col_value = 300\<rparr>,
      \<lparr>col_datetime = ''2023-01-02 18:00:00'', col_type = ''Wind'', col_value = 400\<rparr>]
   = Inr [(''2023-01-01'', ''Wind'', 150), (''2023-01-02'', ''Wind'', 350)]"
proof -
  have "binary64 150 = 150" and "binary64 350 = 350" by code_simp+
  then show ?thesis
    by (simp add: calculate_daily_average_def format_datetime_def dated_rows_def
        map_filter_simps small_group_mean_def sample_to_datetime_def sample_date_def
        iso_timestamp_def)
qed

text \<open>
  Claim C8, as stated: for every non-empty table with at least one Record whose
  timestamp is not parseable as a date-time, the daily average fails. The empty string
  is not a date-time, yet \<^verbatim>\<open>pd.to_datetime\<close> does not raise on it: it returns \<^verbatim>\<open>NaT\<close>, and
  \<^verbatim>\<open>groupby\<close> leaves the Record out. The call returns the average of the other Record.
\<close>

theorem empty_timestamp_dropped_not_failed:
  "calculate_daily_average sample_to_datetime sample_date small_group_mean
     empty_timestamp_table
   = Inr [(''2023-01-01'', ''Wind'', 100)]"
proof -
  have "binary64 100 = 100" by code_simp
  then show ?thesis
    by (simp add: calculate_daily_average_def format_datetime_def dated_rows_def
        map_filter_simps small_group_mean_def sample_to_datetime_def sample_date_def
        iso_timestamp_def empty_timestamp_table_def)
qed

text \<open>
  Claim C8, amended. The daily average does not catch the error of the timestamp
  conversion: for every non-empty table on whose timestamp column \<^verbatim>\<open>pd.to_datetime\<close>
  raises, the call fails with that error, and nothing is skipped or recovered. When the
  conversion does not raise, the call does not fail either: it returns the buckets of
  the Records whose timestamp was converted, and a Record whose timestamp became \<^verbatim>\<open>NaT\<close>
  (the empty string) is in no bucket. The normalizer passes any timestamp string through
  into the Record without failing.
\<close>

theorem daily_average_propagates_conversion_error:
  "(df \<noteq> [] \<longrightarrow> to_datetime (map col_datetime df) = Inl e \<longrightarrow>
      calculate_daily_average to_datetime date_of group_mean df = Inl e)
   \<and> (to_datetime (map col_datetime df) = Inr converted \<longrightarrow>
      (\<exists>rows. calculate_daily_average to_datetime date_of group_mean df = Inr rows
         \<and> set (map (\<lambda>row. (fst row, fst (snd row))) rows)
             = {(date_of ts, col_type r) | r ts.
                  r \<in> set df \<and> converted (col_datetime r) = Some ts}))
   \<and> parse_generation_data
        (response [JObject [(''datetime'', JString s), (''value'', JInt n)]])
      = Inr [\<lparr>row_datetime = JString s, row_type = JString ''total'', row_value = JInt n\<rparr>]"
proof -
  have "calculate_daily_average to_datetime date_of group_mean df = Inl e"
    if "df \<noteq> []" and "to_datetime (map col_datetime df) = Inl e"
    using format_datetime_raises [of df to_datetime e] that
    by (simp add: calculate_daily_average_def)
  moreover have "\<exists>rows. calculate_daily_average to_datetime date_of group_mean df = Inr rows
         \<and> set (map (\<lambda>row. (fst row, fst (snd row))) rows)
             = {(date_of ts, col_type r) | r ts.
                  r \<in> set df \<and> converted (col_datetime r) = Some ts}"
    if conv: "to_datetime (map col_datetime df) = Inr converted"
  proof -
    have "\<exists>rows. calculate_daily_average to_datetime date_of group_mean df = Inr rows"
      using conv by (simp add: calculate_daily_average_def format_datetime_def Let_def)
    then obtain rows
      where rows: "calculate_daily_average to_datetime date_of group_mean df = Inr rows" ..
    from daily_average_keys [of to_datetime date_of group_mean df rows converted] rows conv
    show ?thesis by blast
  qed
  moreover have "parse_generation_data
        (response [JObject [(''datetime'', JString s), (''value'', JInt n)]])
      = Inr [\<lparr>row_datetime = JString s, row_type = JString ''total'', row_value = JInt n\<rparr>]"
    by (simp add: parse_generation_data_values [OF indicator_values_response] entry_step_def)
  ultimately show ?thesis by blast
qed

theorem daily_average_propagates_conversion_error_witness:
  "bad_timestamp_table \<noteq> []
   \<and> sample_to_datetime (map col_datetime bad_timestamp_table) = Inl ValueError
   \<and> calculate_daily_average sample_to_datetime sample_date small_group_mean bad_timestamp_table
       = Inl ValueError
   \<and> sample_to_datetime (map col_datetime empty_timestamp_table)
       = Inr (\<lambda>s. if s = [] then None else Some s)
   \<and> (\<exists>rows. calculate_daily_average sample_to_datetime sample_date small_group_mean
         empty_timestamp_table = Inr rows)"
proof -
  have h1: "bad_timestamp_table \<noteq> []" by (simp add: bad_timestamp_table_def)
  have h2: "sample_to_datetime (map col_datetime bad_timestamp_table) = Inl ValueError"
    by (simp add: sample_to_datetime_def bad_timestamp_table_def iso_timestamp_def)
  from daily_average_propagates_conversion_error
    [of bad_timestamp_table sample_to_datetime ValueError sample_date small_group_mean] h1 h2
  have bad: "calculate_daily_average sample_to_datetime sample_date small_group_mean
      bad_timestamp_table = Inl ValueError"
    by blast
  have g1: "sample_to_datetime (map col_datetime empty_timestamp_table)
       = Inr (\<lambda>s. if s = [] then None else Some s)"
    by (simp add: sample_to_datetime_def empty_timestamp_table_def iso_timestamp_def)
  from daily_average_propagates_conversion_error
    [of empty_timestamp_table sample_to_datetime _ sample_date small_group_mean
        "\<lambda>s. if s = [] then None else Some s"] g1
  have g2: "\<exists>rows. calculate_daily_average sample_to_datetime sample_date small_group_mean
         empty_timestamp_table = Inr rows"
    by blast
  from h1 h2 bad g1 g2 show ?thesis by blast
qed


section \<open>What the normalizer does with the values\<close>

text \<open>Each loop copies the source values into the \<open>row_value\<close> field of its records, in
  order.\<close>

lemma gen_type_loop_values:
  "gen_type_loop d gs acc = Inr t \<Longrightarrow>
   map row_value t = map row_value acc @ List.map_filter (entry_field ''value'') gs"
proof (induction gs arbitrary: acc)
  case Nil
  then show ?case by (simp add: map_filter_simps)
next
  case (Cons g gs)
  from Cons.prems obtain ty v where "getitem g ''type'' = Inr ty"
    and v: "getitem g ''value'' = Inr v"
    and rest: "gen_type_loop d gs (acc @ [\<lparr>row_datetime = d, row_type = ty, row_value = v\<rparr>]) = Inr t"
    by (auto split: sum.splits)
  have "entry_field ''value'' g = Some v" using v by (rule getitem_Inr_field)
  then show ?case using Cons.IH [OF rest] by (simp add: map_filter_simps)
qed

lemma dispatch_values:
  "dispatch d v acc = Inr t \<Longrightarrow> map row_value t = map row_value acc @ value_sources v"
  by (cases v) (auto simp: items_loop_acc comp_def dest: gen_type_loop_values)

lemma entry_step_values:
  assumes "entry_step e acc = Inr t"
  shows "map row_value t = map row_value acc @ entry_sources e"
proof -
  from assms obtain d v where "getitem e ''datetime'' = Inr d"
    and v: "getitem e ''value'' = Inr v" and disp: "dispatch d v acc = Inr t"
    by (auto simp: entry_step_def split: sum.splits)
  have "entry_sources e = value_sources v"
    using getitem_Inr_field [OF v] by (simp add: entry_sources_def)
  then show ?thesis using dispatch_values [OF disp] by simp
qed

lemma values_loop_values:
  "values_loop es acc = Inr t \<Longrightarrow>
   map row_value t = map row_value acc @ concat (map entry_sources es)"
proof (induction es arbitrary: acc)
  case Nil
  then show ?case by simp
next
  case (Cons e es)
  from Cons.prems obtain acc' where st: "entry_step e acc = Inr acc'"
    and rest: "values_loop es acc' = Inr t"
    by (auto split: sum.splits)
  show ?case using Cons.IH [OF rest] entry_step_values [OF st] by simp
qed

text \<open>The loops fail on a missing key only: on entries that have their keys they return
  records, whatever the values are.\<close>

lemma gen_type_loop_keyed:
  assumes "list_all (\<lambda>g. entry_field ''type'' g \<noteq> None \<and> entry_field ''value'' g \<noteq> None) gs"
  shows "\<exists>t. gen_type_loop d gs acc = Inr t"
  using assms
proof (induction gs arbitrary: acc)
  case Nil
  then show ?case by simp
next
  case (Cons g gs)
  from Cons.prems obtain ty v where "entry_field ''type'' g = Some ty"
    and "entry_field ''value'' g = Some v"
    by auto
  then have "getitem g ''type'' = Inr ty" and "getitem g ''value'' = Inr v"
    by (simp_all add: getitem_field_Some)
  then show ?case using Cons.IH Cons.prems by simp
qed

lemma entry_step_keyed:
  assumes "well_keyed e"
  shows "\<exists>t. entry_step e acc = Inr t"
proof -
  from assms obtain d v where d: "entry_field ''datetime'' e = Some d"
    and v: "entry_field ''value'' e = Some v" and kv: "keyed_value v"
    by (auto simp: well_keyed_def split: option.splits)
  have "\<exists>t. dispatch d v acc = Inr t"
    using kv gen_type_loop_keyed [of _ d acc] by (cases v) simp_all
  then show ?thesis using entry_step_fields [OF d v] by simp
qed

lemma values_loop_keyed:
  assumes "list_all well_keyed es"
  shows "\<exists>t. values_loop es acc = Inr t"
  using assms
proof (induction es arbitrary: acc)
  case Nil
  then show ?case by simp
next
  case (Cons e es)
  from Cons.prems have "well_keyed e" by simp
  then obtain acc' where "entry_step e acc = Inr acc'"
    using entry_step_keyed by blast
  then show ?case using Cons.IH Cons.prems by simp
qed

text \<open>A column built from JSON numbers only is an int64 or a float64 column without
  \<^verbatim>\<open>NaN\<close> (or has no cell at all).\<close>

lemma frame_column_numbers:
  assumes "list_all json_number vs"
  shows "numeric_cells (frame_column vs)"
proof -
  have each: "\<not> beyond_int64 v \<and> \<not> forces_object v \<and> \<not> is_bool v \<and> is_int_or_float v
      \<and> float64_cell v \<noteq> NaN"
    if "json_number v" for v
    using that by (cases v) auto
  have "\<not> list_ex beyond_int64 vs" and "\<not> list_ex forces_object vs" and "\<not> list_ex is_bool vs"
    using assms each by (auto simp: list_ex_iff list_all_iff)
  moreover have "list_all (\<lambda>f. f \<noteq> NaN) (map float64_cell vs)"
    using assms each by (auto simp: list_all_iff)
  ultimately show ?thesis
    using assms by (auto simp: frame_column_def)
qed

text \<open>
  Claim C9, as stated: every Record of the table has a numeric value, and an entry
  whose category/value pair carries a non-numeric value is rejected (the call fails or
  the entry is skipped). On a typed-list entry whose element has the string
  \<^verbatim>\<open>"n/a"\<close> as value, the normalizer builds a Record carrying that string, and the value
  column of the table holds the string.
\<close>

theorem non_numeric_value_emitted:
  "parse_generation_data (response [entry_typed_text])
     = Inr [\<lparr>row_datetime = JString ''2023-01-01T05:00:00'', row_type = JString ''Wind'',
              row_value = JString ''n/a''\<rparr>]
   \<and> frame_column [JString ''n/a''] = ObjectColumn [JString ''n/a'']
   \<and> \<not> numeric_cells (ObjectColumn [JString ''n/a''])"
  by (simp add: parse_generation_data_values [OF indicator_values_response] entry_step_def
      entry_typed_text_def frame_column_def)

text \<open>
  Claim C9, amended. Every Record of the table has a numeric value provided every source
  value (the number of a scalar entry, the \<^verbatim>\<open>value\<close> field of each list element, the
  value of each mapping pair) is a JSON number. The normalizer rejects nothing on account
  of a value: for a response whose entries and list elements have their keys it returns
  a table with exactly one Record per source value, and a pair that carries a
  non-numeric value gets its Record like any other, neither skipped nor failed on.
\<close>

theorem values_not_validated:
  assumes "indicator_values data = Some es" and "list_all well_keyed es"
  shows "\<exists>t. parse_generation_data data = Inr t
    \<and> length t = length (concat (map entry_sources es))
    \<and> (list_all json_number (concat (map entry_sources es)) \<longrightarrow>
         numeric_cells (frame_column (map row_value t)))"
proof -
  from values_loop_keyed [OF assms(2), of "[]"] obtain t where t: "values_loop es [] = Inr t" ..
  have vals: "map row_value t = concat (map entry_sources es)"
    using values_loop_values [OF t] by simp
  then have "length (map row_value t) = length (concat (map entry_sources es))" by simp
  then have len: "length t = length (concat (map entry_sources es))" by simp
  have "numeric_cells (frame_column (map row_value t))"
    if "list_all json_number (concat (map entry_sources es))"
    using that frame_column_numbers [of "map row_value t"] unfolding vals by simp
  with len t parse_generation_data_values [OF assms(1)] show ?thesis by simp
qed

text \<open>A scalar entry, a typed-list entry with a string value and a mapping entry: four
  source values, four Records; and a response of numbers only, whose value column is a
  float64 column.\<close>

theorem values_not_validated_witness:
  "list_all well_keyed [entry_scalar_a, entry_typed_text, entry_mapping]
   \<and> concat (map entry_sources [entry_scalar_a, entry_typed_text, entry_mapping])
       = [JFloat (301 / 2), JString ''n/a'', JInt 200, JFloat (801 / 2)]
   \<and> (\<exists>t. parse_generation_data (response [entry_scalar_a, entry_typed_text, entry_mapping]) = Inr t
        \<and> length t = 4)
   \<and> list_all json_number (concat (map entry_sources [entry_scalar_a, entry_mapping]))
   \<and> (\<exists>t. parse_generation_data (response [entry_scalar_a, entry_mapping]) = Inr t
        \<and> numeric_cells (frame_column (map row_value t)))"
proof -
  have k1: "list_all well_keyed [entry_scalar_a, entry_typed_text, entry_mapping]"
    by (simp add: well_keyed_def entry_field_def entry_scalar_a_def entry_typed_text_def
        entry_mapping_def)
  have s1: "concat (map entry_sources [entry_scalar_a, entry_typed_text, entry_mapping])
       = [JFloat (301 / 2), JString ''n/a'', JInt 200, JFloat (801 / 2)]"
    by (simp add: entry_sources_def entry_field_def map_filter_simps entry_scalar_a_def
        entry_typed_text_def entry_mapping_def)
  from values_not_validated [OF indicator_values_response k1]
  have a: "\<exists>t. parse_generation_data (response [entry_scalar_a, entry_typed_text, entry_mapping]) = Inr t
        \<and> length t = length (concat (map entry_sources [entry_scalar_a, entry_typed_text, entry_mapping]))"
    by blast
  then have a': "\<exists>t. parse_generation_data (response [entry_scalar_a, entry_typed_text, entry_mapping]) = Inr t
        \<and> length t = 4"
    unfolding s1 by (simp add: numeral_eq_Suc)
  have k2: "list_all well_keyed [entry_scalar_a, entry_mapping]"
    by (simp add: well_keyed_def entry_field_def entry_scalar_a_def entry_mapping_def)
  have s2: "list_all json_number (concat (map entry_sources [entry_scalar_a, entry_mapping]))"
    by (simp add: entry_sources_def entry_field_def entry_scalar_a_def entry_mapping_def)
  from values_not_validated [OF indicator_values_response k2] s2
  have b: "\<exists>t. parse_generation_data (response [entry_scalar_a, entry_mapping]) = Inr t
        \<and> numeric_cells (frame_column (map row_value t))"
    by blast
  from k1 s1 a' s2 b show ?thesis by blast
qed

section \<open>The scalar-series variant\<close>

lemma indicator_loop_all:
  assumes "list_all2 (\<lambda>e dv. entry_field ''datetime'' e = Some (fst dv) \<and>
             entry_field ''value'' e = Some (snd dv)) es dvs"
  shows "indicator_loop es acc =
    Inr (acc @ map (\<lambda>dv. \<lparr>irow_datetime = fst dv, irow_value = snd dv\<rparr>) dvs)"
  using assms
  by (induction es dvs arbitrary: acc rule: list_all2_induct) (simp_all add: getitem_field_Some)

lemma indicator_loop_raises:
  assumes "e \<in> set es"
    and "entry_field ''datetime'' e = None \<or> entry_field ''value'' e = None"
  shows "\<exists>err. indicator_loop es acc = Inl err"
  using assms
proof (induction es arbitrary: acc)
  case Nil
  then show ?case by simp
next
  case (Cons x xs)
  show ?case
  proof (cases "x = e")
    case True
    then show ?thesis
      using Cons.prems(2) getitem_field_None [of "''datetime''" e]
        getitem_field_None [of "''value''" e]
      by (auto split: sum.splits)
  next
    case False
    then have "e \<in> set xs" using Cons.prems(1) by simp
    then show ?thesis using Cons.IH Cons.prems(2) by (auto split: sum.splits)
  qed
qed

lemma float64_145: "binary64 145 = 145"
  by code_simp

text \<open>
  Claim C10, as stated: \<^verbatim>\<open>parse_indicator_data\<close> emits one Record per entry carrying the
  entry's value unchanged, a null included. On the values 145 and null the table does
  not hold 145 and null: pandas stores the column as float64, and the cells are 145.0
  and \<^verbatim>\<open>NaN\<close>.
\<close>

theorem null_beside_number_stored_as_nan:
  "parse_indicator_data (response [entry_scalar_b, entry_null])
     = Inr \<lparr>datetime_column =
               ObjectColumn [JString ''2023-01-01T01:00:00'', JString ''2023-01-01T03:00:00''],
             value_column = Float64Column [Finite 145, NaN]\<rparr>
   \<and> Float64Column [Finite 145, NaN] \<noteq> ObjectColumn [JInt 145, JNull]"
  using float64_145
  by (simp add: parse_indicator_data_values [OF indicator_values_response]
      entry_scalar_b_def entry_null_def DataFrame_def frame_column_def)

text \<open>
  Claim C10, amended. \<^verbatim>\<open>parse_indicator_data\<close> inspects no shape. For every input whose
  top-level path is present it builds exactly one Record per entry of the values
  sequence, from the entry's timestamp and value whatever that value is (a null or a
  string gets its Record, it is not skipped), and returns the frame that pandas makes of
  these Records, one row per entry; the value column holds the values as pandas stores
  them (a null beside numbers as \<^verbatim>\<open>NaN\<close>, an integer beside a float or a null as a float),
  which is not always the entry's value unchanged. An entry that lacks its \<^verbatim>\<open>datetime\<close>
  or its \<^verbatim>\<open>value\<close> key makes the whole call raise, it is not skipped. Here \<open>dvs\<close> lists
  the timestamp and the value of each entry.
\<close>

theorem parse_indicator_data_no_shape_inspection:
  assumes "indicator_values data = Some es"
  shows "(list_all2 (\<lambda>e dv. entry_field ''datetime'' e = Some (fst dv) \<and>
             entry_field ''value'' e = Some (snd dv)) es dvs \<longrightarrow>
          parse_indicator_data data =
            Inr (DataFrame (map (\<lambda>dv. \<lparr>irow_datetime = fst dv, irow_value = snd dv\<rparr>) dvs))
          \<and> length dvs = length es)
       \<and> ((\<exists>e \<in> set es. entry_field ''datetime'' e = None \<or> entry_field ''value'' e = None) \<longrightarrow>
          (\<exists>err. parse_indicator_data data = Inl err))"
proof -
  have "parse_indicator_data data =
            Inr (DataFrame (map (\<lambda>dv. \<lparr>irow_datetime = fst dv, irow_value = snd dv\<rparr>) dvs))
          \<and> length dvs = length es"
    if "list_all2 (\<lambda>e dv. entry_field ''datetime'' e = Some (fst dv) \<and>
             entry_field ''value'' e = Some (snd dv)) es dvs"
    using parse_indicator_data_values [OF assms] indicator_loop_all [OF that, of "[]"]
      list_all2_lengthD [OF that]
    by simp
  moreover have "\<exists>err. parse_indicator_data data = Inl err"
    if "\<exists>e \<in> set es. entry_field ''datetime'' e = None \<or> entry_field ''value'' e = None"
  proof -
    from that obtain e where "e \<in> set es"
      and "entry_field ''datetime'' e = None \<or> entry_field ''value'' e = None"
      by blast
    then obtain err where "indicator_loop es [] = Inl err"
      using indicator_loop_raises [of e es "[]"] by blast
    then show ?thesis using parse_indicator_data_values [OF assms] by simp
  qed
  ultimately show ?thesis by blast
qed

text \<open>A number, a string and a null each get a Record, and the string keeps the column
  an object column; an entry without \<^verbatim>\<open>value\<close> makes the call raise.\<close>

theorem parse_indicator_data_no_shape_inspection_witness:
  "parse_indicator_data (response [entry_scalar_a, entry_string, entry_null]) =
     Inr (DataFrame
       [\<lparr>irow_datetime = JString ''2023-01-01T00:00:00'', irow_value = JFloat (301 / 2)\<rparr>,
        \<lparr>irow_datetime = JString ''2023-01-01T02:00:00'', irow_value = JString ''n/a''\<rparr>,
        \<lparr>irow_datetime = JString ''2023-01-01T03:00:00'', irow_value = JNull\<rparr>])
   \<and> value_column (DataFrame
       [\<lparr>irow_datetime = JString ''2023-01-01T00:00:00'', irow_value = JFloat (301 / 2)\<rparr>,
        \<lparr>irow_datetime = JString ''2023-01-01T02:00:00'', irow_value = JString ''n/a''\<rparr>,
        \<lparr>irow_datetime = JString ''2023-01-01T03:00:00'', irow_value = JNull\<rparr>])
       = ObjectColumn [JFloat (301 / 2), JString ''n/a'', JNull]
   \<and> entry_field ''value'' entry_no_value = None
   \<and> (\<exists>err. parse_indicator_data (response [entry_scalar_a, entry_no_value, entry_null])
         = Inl err)"
proof -
  let ?dvs = "[(JString ''2023-01-01T00:00:00'', JFloat (301 / 2)),
               (JString ''2023-01-01T02:00:00'', JString ''n/a''),
               (JString ''2023-01-01T03:00:00'', JNull)]"
  have h1: "indicator_values (response [entry_scalar_a, entry_string, entry_null])
      = Some [entry_scalar_a, entry_string, entry_null]"
    by (simp add: indicator_values_response)
  have h2: "list_all2 (\<lambda>e dv. entry_field ''datetime'' e = Some (fst dv) \<and>
             entry_field ''value'' e = Some (snd dv))
             [entry_scalar_a, entry_string, entry_null] ?dvs"
    by (simp add: entry_field_def entry_scalar_a_def entry_string_def entry_null_def)
  from parse_indicator_data_no_shape_inspection [OF h1, of ?dvs] h2
  have good: "parse_indicator_data (response [entry_scalar_a, entry_string, entry_null]) =
      Inr (DataFrame (map (\<lambda>dv. \<lparr>irow_datetime = fst dv, irow_value = snd dv\<rparr>) ?dvs))"
    by blast
  have col: "value_column (DataFrame
       [\<lparr>irow_datetime = JString ''2023-01-01T00:00:00'', irow_value = JFloat (301 / 2)\<rparr>,
        \<lparr>irow_datetime = JString ''2023-01-01T02:00:00'', irow_value = JString ''n/a''\<rparr>,
        \<lparr>irow_datetime = JString ''2023-01-01T03:00:00'', irow_value = JNull\<rparr>])
       = ObjectColumn [JFloat (301 / 2), JString ''n/a'', JNull]"
    by (simp add: DataFrame_def frame_column_def)
  have g1: "indicator_values (response [entry_scalar_a, entry_no_value, entry_null])
      = Some [entry_scalar_a, entry_no_value, entry_null]"
    by (simp add: indicator_values_response)
  have g2: "entry_field ''value'' entry_no_value = None"
    by (simp add: entry_field_def entry_no_value_def)
  then have g3: "\<exists>e \<in> set [entry_scalar_a, entry_no_value, entry_null].
      entry_field ''datetime'' e = None \<or> entry_field ''value'' e = None"
    by simp
  from parse_indicator_data_no_shape_inspection [OF g1] g3
  have bad: "\<exists>err. parse_indicator_data (response [entry_scalar_a, entry_no_value, entry_null])
         = Inl err"
    by blast
  from good col g2 bad show ?thesis by simp
qed


end
